theory Spec2Isabelle
  imports Complex_Main "HOL-Library.Product_Lexorder"
begin

section \<open>FTCNN: chip tiling and geometry alignment (ftcnn.py)\<close>

text \<open>
  A shallow embedding of the functions of \<^verbatim>\<open>ftcnn.py\<close> that tile a raster into chips,
  decide which chips are kept, write them under the global write lock, map annotation
  geometry to chips and convert geographic points to pixels.

  Python integers are \<open>int\<close>, floating-point coordinates and areas are \<open>real\<close>, strings
  are \<open>string\<close> (one \<open>char\<close> per code point below 256). An exception is a value of
  \<open>error\<close>, returned as \<open>Inl\<close>; \<open>error\<close> ranges over instances of Python's
  \<^verbatim>\<open>Exception\<close>, the class the handlers of the source catch. The libraries the source
  calls (rasterio, GDAL, shapely, skimage) are parameters of the definitions.
\<close>

subsection \<open>Errors\<close>

datatype error =
    IndexError
  | ValueError
  | FileExistsError string
  | IOFailure string
  | Exception string

subsection \<open>Strings\<close>

text \<open>\<^verbatim>\<open>str.isdigit\<close> on one character: the ASCII digits and, below 256, the
  superscripts U+00B2, U+00B3 and U+00B9.\<close>

definition isdigit :: "char \<Rightarrow> bool" where
  "isdigit c =
     (let n = (of_char c :: nat)
      in (48 \<le> n \<and> n \<le> 57) \<or> n = 178 \<or> n = 179 \<or> n = 185)"

definition digit_char :: "nat \<Rightarrow> char" where
  "digit_char d = ''0123456789'' ! d"

fun str_nat :: "nat \<Rightarrow> string" where
  "str_nat n = (if n < 10 then [digit_char n] else str_nat (n div 10) @ [digit_char (n mod 10)])"

declare str_nat.simps [simp del]

text \<open>\<^verbatim>\<open>str(i)\<close> for a Python integer.\<close>

definition str_int :: "int \<Rightarrow> string" where
  "str_int i = (if i < 0 then CHR ''-'' # str_nat (nat (- i)) else str_nat (nat i))"

text \<open>\<^verbatim>\<open>sep.join(parts)\<close>.\<close>

fun join :: "string \<Rightarrow> string list \<Rightarrow> string" where
  "join sep [] = []"
| "join sep [x] = x"
| "join sep (x # y # ys) = x @ sep @ join sep (y # ys)"

subsection \<open>Geometry\<close>

text \<open>
  A shapely geometry, as far as the source looks at it: a polygon is the coordinate list
  of its exterior ring (\<^verbatim>\<open>Polygon()\<close> is \<open>Polygon []\<close>), a multi-polygon a list of such
  rings, a collection a list of geometries. Area, intersection, simplification and
  normalisation are shapely's and are passed in where the source calls them.
\<close>

type_synonym coords = "(real \<times> real) list"

datatype geometry =
    Point coords
  | LineString coords
  | Polygon coords
  | MultiPolygon "coords list"
  | GeometryCollection "geometry list"

fun is_empty :: "geometry \<Rightarrow> bool" where
  "is_empty (Point cs) = (cs = [])"
| "is_empty (LineString cs) = (cs = [])"
| "is_empty (Polygon cs) = (cs = [])"
| "is_empty (MultiPolygon ps) = (\<forall>cs \<in> set ps. cs = [])"
| "is_empty (GeometryCollection gs) = (\<forall>g \<in> set gs. is_empty g)"

text \<open>
  The calls into shapely. Simplifying a polygon with \<^verbatim>\<open>preserve_topology=True\<close> and
  normalising it give a polygon again, so both are maps on exterior rings. The
  constructor \<^verbatim>\<open>Polygon(points)\<close> raises when the points do not make a ring.
\<close>

record shapely_ops =
  make_polygon :: "coords \<Rightarrow> error + coords"
  simplify :: "real \<Rightarrow> bool \<Rightarrow> coords \<Rightarrow> coords"
  normalize :: "coords \<Rightarrow> coords"
  intersects :: "geometry \<Rightarrow> geometry \<Rightarrow> bool"
  intersection :: "geometry \<Rightarrow> geometry \<Rightarrow> geometry"

subsection \<open>\<^verbatim>\<open>encode_default_classes\<close>\<close>

text \<open>The row of a dataframe, as far as the encoder reads it: \<^verbatim>\<open>row.get("geometry")\<close>,
  which is \<open>None\<close> when the column is missing or the geometry is null.\<close>

record df_row =
  geometry :: "geometry option"

definition encode_default_classes :: "(geometry \<Rightarrow> real) \<Rightarrow> 'a df_row_scheme \<Rightarrow> int \<times> string" where
  "encode_default_classes area row =
     (let geom = geometry row
      in case geom of
           None \<Rightarrow> (- 1, ''Background'')
         | Some g \<Rightarrow>
             if \<not> is_empty g \<and> area g > 1 then (0, ''Treatment'')
             else (- 1, ''Background''))"

subsection \<open>\<^verbatim>\<open>parse_filename\<close>\<close>

record series =
  Subregion :: string
  StartYear :: int
  EndYear :: int

text \<open>\<^verbatim>\<open>filename[-1]\<close> raises IndexError on the empty string.\<close>

definition parse_filename :: "series \<Rightarrow> error + string" where
  "parse_filename s =
     (let subregion = Subregion s;
          startyear = str_int (StartYear s);
          endyear = str_int (EndYear s);
          years_part = join ''to'' [startyear, endyear];
          end_part = ''NDVI_Difference.tif'';
          filename = subregion
      in if filename = [] then Inl IndexError
         else
           let last_c = last filename;
               filename' =
                 (if isdigit last_c then filename @ ''_''
                  else if last_c = CHR ''E'' then join ''_'' [butlast filename, ''Expanded'', '''']
                  else filename);
               start_part = filename' @ years_part
           in Inr (join ''_'' [start_part, end_part]))"

subsection \<open>Arrays\<close>

text \<open>
  A pixel of a floating-point band is a number or the not-a-number marker. A 2-D numpy
  array is its shape (rows, columns) and its values in row-major order.
\<close>

datatype pixel = NaN | Val real

record ndarray =
  shape :: "nat \<times> nat"
  data :: "pixel list"

text \<open>\<^verbatim>\<open>==\<close> on floats: the not-a-number marker is equal to nothing, itself included.\<close>

fun pixel_eq :: "pixel \<Rightarrow> pixel \<Rightarrow> bool" where
  "pixel_eq (Val a) (Val b) = (a = b)"
| "pixel_eq _ _ = False"

text \<open>\<^verbatim>\<open>x == src.nodata\<close>, where the no-data value of a raster may be \<^verbatim>\<open>None\<close>.\<close>

fun eq_nodata :: "pixel \<Rightarrow> pixel option \<Rightarrow> bool" where
  "eq_nodata p None = False"
| "eq_nodata p (Some n) = pixel_eq p n"

text \<open>\<^verbatim>\<open>ndarray.max()\<close>: the marker wins over every number; ValueError on an array
  without elements.\<close>

fun np_maximum :: "pixel \<Rightarrow> pixel \<Rightarrow> pixel" where
  "np_maximum (Val a) (Val b) = Val (max a b)"
| "np_maximum _ _ = NaN"

definition array_max :: "ndarray \<Rightarrow> error + pixel" where
  "array_max a = (case data a of [] \<Rightarrow> Inl ValueError | p # ps \<Rightarrow> Inr (foldl np_maximum p ps))"

text \<open>\<^verbatim>\<open>arr.reshape(shape)\<close>: ValueError when the number of elements differs.\<close>

definition reshape :: "ndarray \<Rightarrow> nat \<times> nat \<Rightarrow> error + ndarray" where
  "reshape arr shp =
     (if length (data arr) = fst shp * snd shp then Inr (arr\<lparr>shape := shp\<rparr>)
      else Inl ValueError)"

subsection \<open>Rasters, windows and the world outside\<close>

record window =
  col_off :: int
  row_off :: int
  win_width :: int
  win_height :: int

text \<open>An affine transform, as the map from pixel to geographic coordinates that
  \<^verbatim>\<open>transform * (x, y)\<close> computes.\<close>

type_synonym affine = "real \<times> real \<Rightarrow> real \<times> real"

text \<open>The entries of a rasterio metadata dictionary that \<^verbatim>\<open>write_chip\<close> sets; the
  entries it leaves alone are \<open>meta_rest\<close>.\<close>

record meta =
  meta_height :: nat
  meta_width :: nat
  meta_transform :: "affine option"
  meta_rest :: "(string \<times> string) list"

text \<open>
  An opened rasterio dataset: its bounds (left, bottom, right, top), \<^verbatim>\<open>src.index(x, y)\<close>
  giving (row, column), \<^verbatim>\<open>src.xy(row, col)\<close>, \<^verbatim>\<open>src.read(1, window=w)\<close>, which can fail,
  and so on. These are the geo-transform service of the raster library.
\<close>

record raster =
  bounds :: "real \<times> real \<times> real \<times> real"
  index :: "real \<Rightarrow> real \<Rightarrow> int \<times> int"
  xy :: "int \<Rightarrow> int \<Rightarrow> real \<times> real"
  nodata :: "pixel option"
  read :: "window \<Rightarrow> error + ndarray"
  window_transform :: "window \<Rightarrow> affine"
  src_meta :: meta
  src_width :: int
  src_height :: int

text \<open>A GeoTIFF on disk: the parts of its path (\<^verbatim>\<open>Path.name\<close>, \<^verbatim>\<open>Path.stem\<close>) and the
  dataset that opening it gives.\<close>

record tif_file =
  tif_path :: string
  tif_name :: string
  tif_stem :: string
  opened :: raster

text \<open>
  Modelled from the spec: the class \<^verbatim>\<open>Lock\<close> of the module \<^verbatim>\<open>utils\<close>, imported by
  \<^verbatim>\<open>ftcnn.py\<close> and not part of the sources at hand. The spec calls it an advisory lock
  that a caller polls until it is free and then holds; it is a flag with the three
  methods the source calls.
\<close>

record Lock =
  locked :: bool

definition is_locked :: "Lock \<Rightarrow> bool" where
  "is_locked l = locked l"

definition lock :: "Lock \<Rightarrow> Lock" where
  "lock l = l\<lparr>locked := True\<rparr>"

definition unlock :: "Lock \<Rightarrow> Lock" where
  "unlock l = l\<lparr>locked := False\<rparr>"

text \<open>
  What a call can change: the module's global \<^verbatim>\<open>_writelock\<close>, the files and
  directories that exist, and what was printed on standard error.
\<close>

record world =
  writelock :: Lock
  files :: "string set"
  dirs :: "string set"
  stderr :: "error list"

text \<open>
  \<^verbatim>\<open>__request_writelock__\<close>: poll until the lock is free, then take it. In a run of one
  thread nothing frees a lock that is held, and the loop does not end: the result is
  \<open>None\<close>.
\<close>

partial_function (option) request_writelock :: "world \<Rightarrow> world option" where
  "request_writelock w =
     (if is_locked (writelock w) then request_writelock w
      else Some (w\<lparr>writelock := lock (writelock w)\<rparr>))"

definition free_writelock :: "world \<Rightarrow> world" where
  "free_writelock w = w\<lparr>writelock := unlock (writelock w)\<rparr>"

subsection \<open>\<^verbatim>\<open>write_chip\<close>\<close>

text \<open>
  The two encoders of rasterio that \<^verbatim>\<open>write_chip\<close> calls: writing band 1 to a file
  (\<open>None\<close> when it succeeds), and writing band 1 to a memory file and reading it back.
\<close>

record rasterio_io =
  disk_write :: "string \<Rightarrow> meta \<Rightarrow> ndarray \<Rightarrow> error option"
  mem_write_read :: "meta \<Rightarrow> ndarray \<Rightarrow> error + ndarray"

text \<open>
  The result is \<open>None\<close> when the call does not return, else the value returned or the
  exception raised, and the world after the call; a write that raises is taken to leave
  no file. The handler frees the lock whenever
  the local variable \<^verbatim>\<open>lock\<close> is set, which is the case as soon as the request returned,
  and raises the exception again.
\<close>

definition write_chip ::
  "rasterio_io \<Rightarrow> ndarray \<Rightarrow> affine \<Rightarrow> meta \<Rightarrow> string option \<Rightarrow> world
     \<Rightarrow> ((error + ndarray option) \<times> world) option" where
  "write_chip io dat transform m output_path w =
     (let m' = m\<lparr>meta_height := fst (shape dat), meta_width := snd (shape dat),
                  meta_transform := Some transform\<rparr>
      in case request_writelock w of
           None \<Rightarrow> None
         | Some w1 \<Rightarrow>
             (case output_path of
                None \<Rightarrow>
                  (case mem_write_read io m' dat of
                     Inl e \<Rightarrow> Some (Inl e, free_writelock w1)
                   | Inr arr \<Rightarrow>
                       (case reshape arr (shape dat) of
                          Inl e \<Rightarrow> Some (Inl e, free_writelock w1)
                        | Inr res \<Rightarrow> Some (Inr (Some res), free_writelock w1)))
              | Some p \<Rightarrow>
                  (case disk_write io p m' dat of
                     Some e \<Rightarrow> Some (Inl e, free_writelock w1)
                   | None \<Rightarrow>
                       Some (Inr None, free_writelock (w1\<lparr>files := insert p (files w1)\<rparr>)))))"

subsection \<open>\<^verbatim>\<open>create_chips_from_geotiff\<close>\<close>

text \<open>\<^verbatim>\<open>range(start, stop, step)\<close> for a positive step, the only one the tiling loop
  reaches.\<close>

function py_range :: "int \<Rightarrow> int \<Rightarrow> int \<Rightarrow> int list" where
  "py_range start stop step =
     (if 0 < step \<and> start < stop then start # py_range (start + step) stop step else [])"
  by pat_completeness auto
termination
  by (relation "measure (\<lambda>(start, stop, step). nat (stop - start))") auto

declare py_range.simps [simp del]

text \<open>The pixel bounds (rmin, cmin, rmax, cmax): both corners are looked up and then
  ordered.\<close>

definition pixel_bounds :: "raster \<Rightarrow> int \<times> int \<times> int \<times> int" where
  "pixel_bounds src =
     (let (left, bottom, right, top) = bounds src;
          (rmin, cmin) = index src left top;
          (rmax, cmax) = index src right bottom
      in (min rmin rmax, min cmin cmax, max rmin rmax, max cmin cmax))"

text \<open>The chip size after \<^verbatim>\<open>None\<close> has been replaced by the extent of the raster.\<close>

definition resolve_chip_size :: "int option \<times> int option \<Rightarrow> int \<times> int \<times> int \<times> int \<Rightarrow> int \<times> int" where
  "resolve_chip_size chip_size b =
     (case b of (rmin, cmin, rmax, cmax) \<Rightarrow>
        (case chip_size of
           (Some width, Some height) \<Rightarrow> (width, height)
         | _ \<Rightarrow> (cmax - cmin, rmax - rmin)))"

text \<open>The offsets (row, col) that the two nested loops visit, in their order.\<close>

definition grid :: "int \<times> int \<times> int \<times> int \<Rightarrow> int \<times> int \<Rightarrow> (int \<times> int) list" where
  "grid b chip_wh =
     (case b of (rmin, cmin, rmax, cmax) \<Rightarrow>
        (case chip_wh of (width, height) \<Rightarrow>
           concat (map (\<lambda>row. map (\<lambda>col. (row, col)) (py_range cmin cmax width))
                       (py_range rmin rmax height))))"

text \<open>The window built at offset (row, col).\<close>

definition window_at :: "int \<Rightarrow> int \<Rightarrow> int \<times> int \<Rightarrow> int \<Rightarrow> int \<Rightarrow> window" where
  "window_at rmax cmax chip_wh row col =
     (let rem_height = rmax - row - 1;
          rem_width = cmax - col - 1
      in \<lparr>col_off = col, row_off = row,
          win_width = min (fst chip_wh) rem_width, win_height = min (snd chip_wh) rem_height\<rparr>)"

text \<open>All windows that a call builds when no step of the loop raises.\<close>

definition chip_windows :: "raster \<Rightarrow> int option \<times> int option \<Rightarrow> window list" where
  "chip_windows src chip_size =
     (let b = pixel_bounds src;
          chip_wh = resolve_chip_size chip_size b
      in if fst chip_wh \<le> 0 \<or> snd chip_wh \<le> 0 then []
         else case b of (rmin, cmin, rmax, cmax) \<Rightarrow>
                map (\<lambda>(row, col). window_at rmax cmax chip_wh row col) (grid b chip_wh))"

text \<open>\<^verbatim>\<open>chip_data[chip_data == src.nodata] = np.NaN\<close>.\<close>

definition mask_nodata :: "pixel option \<Rightarrow> ndarray \<Rightarrow> ndarray" where
  "mask_nodata nd a = a\<lparr>data := map (\<lambda>p. if eq_nodata p nd then NaN else p) (data a)\<rparr>"

text \<open>
  The test before \<^verbatim>\<open>continue\<close>, on the buffer after masking; \<^verbatim>\<open>or\<close> evaluates from
  the left and stops at the first true operand. The quotient of the sides is a float
  compared with 0.1; for sides below 2^53 the comparison agrees with the one on
  rationals.
\<close>

definition no_relevant_data :: "pixel option \<Rightarrow> ndarray \<Rightarrow> error + bool" where
  "no_relevant_data nd chip_data =
     (let h = fst (shape chip_data); w = snd (shape chip_data)
      in if h = 0 then Inr True
         else if w = 0 then Inr True
         else case array_max chip_data of
                Inl e \<Rightarrow> Inl e
              | Inr m \<Rightarrow>
                  Inr (pixel_eq m (Val 0) \<or> eq_nodata m nd
                       \<or> real (min h w) / real (max h w) < 1 / 10))"

definition chip_output_path :: "string \<Rightarrow> string \<Rightarrow> int \<Rightarrow> int \<Rightarrow> string" where
  "chip_output_path output_dir stem row col =
     output_dir @ ''/'' @ stem @ ''_chip_'' @ str_int row @ ''_'' @ str_int col @ ''.tif''"

type_synonym chip = "ndarray option \<times> (real \<times> real)"

text \<open>One pass through the body of the inner loop, at offset (row, col).\<close>

definition process_window ::
  "rasterio_io \<Rightarrow> tif_file \<Rightarrow> int \<Rightarrow> int \<Rightarrow> int \<times> int \<Rightarrow> string option \<Rightarrow> bool
     \<Rightarrow> int \<times> int \<Rightarrow> chip list \<Rightarrow> world \<Rightarrow> ((error + chip list) \<times> world) option" where
  "process_window io f rmax cmax chip_wh output_dir exist_ok rc chips w =
     (let src = opened f; row = fst rc; col = snd rc;
          chip_path = map_option (\<lambda>d. chip_output_path d (tif_stem f) row col) output_dir
      in case (case chip_path of
                 None \<Rightarrow> None
               | Some p \<Rightarrow> if p \<in> files w \<and> \<not> exist_ok then Some (FileExistsError p) else None) of
           Some e \<Rightarrow> Some (Inl e, w)
         | None \<Rightarrow>
             (let w1 = (case output_dir of None \<Rightarrow> w | Some d \<Rightarrow> w\<lparr>dirs := insert d (dirs w)\<rparr>);
                  chip_window = window_at rmax cmax chip_wh row col
              in case read src chip_window of
                   Inl e \<Rightarrow> Some (Inl e, w1)
                 | Inr raw \<Rightarrow>
                     (let chip_data = mask_nodata (nodata src) raw
                      in case no_relevant_data (nodata src) chip_data of
                           Inl e \<Rightarrow> Some (Inl e, w1)
                         | Inr True \<Rightarrow> Some (Inr chips, w1)
                         | Inr False \<Rightarrow>
                             (case write_chip io chip_data (window_transform src chip_window)
                                     (src_meta src) chip_path w1 of
                                None \<Rightarrow> None
                              | Some (Inl e, w2) \<Rightarrow> Some (Inl e, w2)
                              | Some (Inr res, w2) \<Rightarrow>
                                  Some (Inr (chips @ [(res, xy src row col)]), w2)))))"

text \<open>The two loops, over the offsets in order; an exception or a call that does not
  return ends them.\<close>

fun process_windows ::
  "rasterio_io \<Rightarrow> tif_file \<Rightarrow> int \<Rightarrow> int \<Rightarrow> int \<times> int \<Rightarrow> string option \<Rightarrow> bool
     \<Rightarrow> (int \<times> int) list \<Rightarrow> chip list \<Rightarrow> world \<Rightarrow> ((error + chip list) \<times> world) option" where
  "process_windows io f rmax cmax chip_wh output_dir exist_ok [] chips w = Some (Inr chips, w)"
| "process_windows io f rmax cmax chip_wh output_dir exist_ok (rc # rest) chips w =
     (case process_window io f rmax cmax chip_wh output_dir exist_ok rc chips w of
        None \<Rightarrow> None
      | Some (Inl e, w') \<Rightarrow> Some (Inl e, w')
      | Some (Inr chips', w') \<Rightarrow>
          process_windows io f rmax cmax chip_wh output_dir exist_ok rest chips' w')"

definition create_chips_from_geotiff ::
  "rasterio_io \<Rightarrow> tif_file \<Rightarrow> int option \<times> int option \<Rightarrow> string option \<Rightarrow> bool \<Rightarrow> world
     \<Rightarrow> ((error + chip list) \<times> world) option" where
  "create_chips_from_geotiff io geotiff chip_size output_dir exist_ok w =
     (let b = pixel_bounds (opened geotiff);
          chip_wh = resolve_chip_size chip_size b
      in if fst chip_wh \<le> 0 \<or> snd chip_wh \<le> 0 then Some (Inr [], w)
         else case b of (rmin, cmin, rmax, cmax) \<Rightarrow>
                process_windows io geotiff rmax cmax chip_wh output_dir exist_ok (grid b chip_wh) [] w)"

text \<open>A window covers the pixel in row r and column c.\<close>

definition covers :: "window \<Rightarrow> int \<Rightarrow> int \<Rightarrow> bool" where
  "covers win r c =
     (row_off win \<le> r \<and> r < row_off win + win_height win
      \<and> col_off win \<le> c \<and> c < col_off win + win_width win)"

subsection \<open>\<^verbatim>\<open>tiff_to_png\<close>\<close>

text \<open>
  The calls into GDAL, numpy and skimage: opening the source (before the \<^verbatim>\<open>try\<close>),
  everything from reading the band to the 8-bit image \<^verbatim>\<open>png_img\<close> (inside the \<^verbatim>\<open>try\<close>,
  before the lock is requested), and \<^verbatim>\<open>skio.imsave\<close>.
\<close>

record ('ds, 'img) gdal_io =
  open_ds :: "string \<Rightarrow> error + 'ds"
  render :: "'ds \<Rightarrow> error + 'img"
  imsave :: "string \<Rightarrow> 'img \<Rightarrow> error option"

text \<open>The handler frees the lock if it was taken, prints the exception and falls
  through to \<^verbatim>\<open>return png_img\<close>.\<close>

definition tiff_to_png ::
  "('ds, 'img) gdal_io \<Rightarrow> string \<Rightarrow> string option \<Rightarrow> world
     \<Rightarrow> ((error + 'img option) \<times> world) option" where
  "tiff_to_png io tiff out_path w =
     (case open_ds io tiff of
        Inl e \<Rightarrow> Some (Inl e, w)
      | Inr src_ds \<Rightarrow>
          (case render io src_ds of
             Inl e \<Rightarrow> Some (Inr None, w\<lparr>stderr := stderr w @ [e]\<rparr>)
           | Inr png_img \<Rightarrow>
               (case out_path of
                  None \<Rightarrow> Some (Inr (Some png_img), w)
                | Some p \<Rightarrow>
                    (case request_writelock w of
                       None \<Rightarrow> None
                     | Some w1 \<Rightarrow>
                         (case imsave io p png_img of
                            None \<Rightarrow>
                              Some (Inr (Some png_img),
                                    free_writelock (w1\<lparr>files := insert p (files w1)\<rparr>))
                          | Some e \<Rightarrow>
                              Some (Inr (Some png_img),
                                    (free_writelock w1)\<lparr>stderr := stderr w1 @ [e]\<rparr>))))))"

subsection \<open>\<^verbatim>\<open>clip_points\<close> and \<^verbatim>\<open>geotiff_convert_geometry_to_pixels\<close>\<close>

definition clip_points :: "(int \<times> int) list \<Rightarrow> int \<times> int \<Rightarrow> (int \<times> int) list" where
  "clip_points points shp =
     (let width = fst shp; height = snd shp
      in map (\<lambda>(x, y). (max 0 (min x (width - 1)), max 0 (min y (height - 1)))) points)"

text \<open>What the caller passes as \<^verbatim>\<open>geometry\<close>: a shapely geometry, a string, or a value
  of another type.\<close>

datatype geometry_arg = Geom geometry | Str string | Other

text \<open>
  The raster is the one that \<^verbatim>\<open>rasterio.open(tiff_path)\<close> gives. The parser of the
  textual form, \<^verbatim>\<open>parse_polygon_str\<close>, is a parameter; what it returns goes through
  the constructor \<^verbatim>\<open>Polygon\<close>. \<^verbatim>\<open>[::-1]\<close> turns the (row, column) of the index lookup
  into (x, y).
\<close>

definition geotiff_convert_geometry_to_pixels ::
  "shapely_ops \<Rightarrow> (string \<Rightarrow> error + coords) \<Rightarrow> raster \<Rightarrow> geometry_arg
     \<Rightarrow> error + (int \<times> int) list" where
  "geotiff_convert_geometry_to_pixels shapely parse_polygon_str src geometry_in =
     (case (case geometry_in of
              Geom (Polygon cs) \<Rightarrow> Inr cs
            | Geom _ \<Rightarrow> Inl ValueError
            | Str s \<Rightarrow>
                (case parse_polygon_str s of
                   Inl e \<Rightarrow> Inl e
                 | Inr points \<Rightarrow> make_polygon shapely points)
            | Other \<Rightarrow> Inl ValueError) of
        Inl e \<Rightarrow> Inl e
      | Inr ring \<Rightarrow>
          (let polygon = normalize shapely (simplify shapely (2 / 1000) True ring);
               geom_points = polygon;
               pixels = map (\<lambda>point. prod.swap (index src (fst point) (snd point))) geom_points
           in Inr (clip_points pixels (src_width src, src_height src))))"

subsection \<open>\<^verbatim>\<open>map_geometry_to_geotiffs\<close>\<close>

text \<open>A row of the annotation frame: its geometry, the year pair, and the name and path
  of the source image.\<close>

record gdf_row = df_row +
  start_year :: int
  end_year :: int
  filename :: string
  path :: string

text \<open>A row of the mapped frame.\<close>

record mapped_row =
  m_filename :: string
  m_path :: string
  m_width :: int
  m_height :: int
  m_geometry :: geometry

text \<open>\<^verbatim>\<open>os.path.splitext(p)[0]\<close>: the path without its extension, where a name made of
  leading dots only has none.\<close>

definition splitext_root :: "string \<Rightarrow> string" where
  "splitext_root p =
     (let ext = rev (takeWhile (\<lambda>c. c \<noteq> CHR ''.'' \<and> c \<noteq> CHR ''/'') (rev p));
          k = length p - length ext
      in if k = 0 \<or> p ! (k - 1) \<noteq> CHR ''.'' then p
         else let root = take (k - 1) p;
                  base = rev (takeWhile (\<lambda>c. c \<noteq> CHR ''/'') (rev root))
              in if list_all (\<lambda>c. c = CHR ''.'') base then p else root)"

text \<open>\<^verbatim>\<open>a in b\<close> on strings.\<close>

fun is_substring :: "string \<Rightarrow> string \<Rightarrow> bool" where
  "is_substring a [] = (a = [])"
| "is_substring a (c # cs) = (take (length a) (c # cs) = a \<or> is_substring a cs)"

fun compare_stem :: "string \<Rightarrow> string list \<Rightarrow> bool" where
  "compare_stem stem [] = False"
| "compare_stem stem (name # names) =
     (if is_substring (take (length name) stem) name then True else compare_stem stem names)"

text \<open>\<^verbatim>\<open>unique()\<close> and \<^verbatim>\<open>drop_duplicates()\<close>: the first of equal entries stays.\<close>

fun drop_seen :: "'a list \<Rightarrow> 'a list \<Rightarrow> 'a list" where
  "drop_seen seen [] = []"
| "drop_seen seen (x # xs) =
     (if x \<in> set seen then drop_seen seen xs else x # drop_seen (seen @ [x]) xs)"

definition drop_duplicates :: "'a list \<Rightarrow> 'a list" where
  "drop_duplicates xs = drop_seen [] xs"

definition create_chip_polygon :: "raster \<Rightarrow> window \<Rightarrow> geometry" where
  "create_chip_polygon src chip_window =
     (let chip_transform = window_transform src chip_window;
          width = real_of_int (win_width chip_window);
          height = real_of_int (win_height chip_window)
      in Polygon [chip_transform (0, 0), chip_transform (width, 0),
                  chip_transform (width, height), chip_transform (0, height),
                  chip_transform (0, 0)])"

text \<open>\<^verbatim>\<open>explode()\<close>: one row for each part of a multi-part geometry, the row itself for
  a single geometry.\<close>

definition explode :: "mapped_row \<Rightarrow> mapped_row list" where
  "explode r =
     (case m_geometry r of
        MultiPolygon ps \<Rightarrow> map (\<lambda>cs. r\<lparr>m_geometry := Polygon cs\<rparr>) ps
      | GeometryCollection gs \<Rightarrow> map (\<lambda>g. r\<lparr>m_geometry := g\<rparr>) gs
      | _ \<Rightarrow> [r])"

text \<open>The rows that one image adds, in the body of the loop over \<^verbatim>\<open>image_paths\<close>.\<close>

definition rows_of_image :: "shapely_ops \<Rightarrow> 'a gdf_row_scheme list \<Rightarrow> tif_file \<Rightarrow> mapped_row list" where
  "rows_of_image shapely gdf f =
     (let src = opened f;
          chip_window = \<lparr>col_off = 0, row_off = 0,
                         win_width = src_width src, win_height = src_height src\<rparr>;
          chip_polygon = create_chip_polygon src chip_window;
          intersecting_polygons =
            filter (\<lambda>r. case geometry r of None \<Rightarrow> False
                                          | Some g \<Rightarrow> intersects shapely g chip_polygon) gdf;
          row = (\<lambda>g. \<lparr>m_filename = tif_name f, m_path = tif_path f,
                       m_width = src_width src, m_height = src_height src, m_geometry = g\<rparr>)
      in if intersecting_polygons \<noteq> []
         then concat (map (\<lambda>polygon_row.
                             case geometry polygon_row of
                               None \<Rightarrow> []
                             | Some g \<Rightarrow> [row (intersection shapely g chip_polygon)])
                          intersecting_polygons)
         else [row (Polygon [])])"

text \<open>\<open>tifs\<close> is what \<^verbatim>\<open>collect_files_with_suffix(".tif", img_dir, recurse)\<close> finds.\<close>

definition map_geometry_to_geotiffs ::
  "shapely_ops \<Rightarrow> 'a gdf_row_scheme list \<Rightarrow> tif_file list \<Rightarrow> mapped_row list" where
  "map_geometry_to_geotiffs shapely gdf tifs =
     (let orig_stems = map splitext_root (drop_duplicates (map filename gdf));
          image_paths = filter (\<lambda>f. compare_stem (tif_stem f) orig_stems) tifs;
          rows = concat (map (rows_of_image shapely gdf) image_paths)
      in drop_duplicates (concat (map explode rows)))"

subsection \<open>\<^verbatim>\<open>preprocess_ndvi_difference_geotiffs\<close>\<close>

text \<open>A row of the returned frame: a mapped row with the two year columns.\<close>

record out_row = mapped_row +
  o_start_year :: int
  o_end_year :: int

text \<open>
  \<^verbatim>\<open>preprocess_geotiff_dataset\<close>: the distinct image paths of the frame, of the rows of
  the given year pair when there is one; an exception when there is none. Clearing the
  destination directory does not touch the result.
\<close>

definition preprocess_geotiff_dataset :: "gdf_row list \<Rightarrow> (int \<times> int) option \<Rightarrow> error + string list" where
  "preprocess_geotiff_dataset gdf years =
     (let imgs =
            (case years of
               None \<Rightarrow> drop_duplicates (map path gdf)
             | Some (y0, y1) \<Rightarrow>
                 drop_duplicates
                   (map path (filter (\<lambda>r. start_year r = y0 \<and> end_year r = y1) gdf)))
      in if imgs = [] then Inl (Exception ''Could not find images'') else Inr imgs)"

text \<open>
  \<^verbatim>\<open>preprocess_ndvi_difference_geotiffs\<close>. The images are collected first, which raises
  when there are none; the worker pool then makes the chips, and \<open>tifs\<close> are the chip
  files found under the output directory afterwards. The result is the returned frame
  and the list \<^verbatim>\<open>unused_chips\<close> of paths that the clean-up removes from disk; the
  removal itself does not touch the frame. \<^verbatim>\<open>pd.concat\<close> raises ValueError when there
  is no group.
\<close>

text \<open>\<^verbatim>\<open>gdf_mapped.insert(0, start_year_col, start_year)\<close> and the same for the end
  year, on one row.\<close>

definition insert_years :: "int \<Rightarrow> int \<Rightarrow> mapped_row \<Rightarrow> out_row" where
  "insert_years sy ey r =
     \<lparr>m_filename = m_filename r, m_path = m_path r, m_width = m_width r,
      m_height = m_height r, m_geometry = m_geometry r,
      o_start_year = sy, o_end_year = ey\<rparr>"

definition preprocess_ndvi_difference_geotiffs ::
  "shapely_ops \<Rightarrow> gdf_row list \<Rightarrow> (int \<times> int) option \<Rightarrow> tif_file list \<Rightarrow> bool
     \<Rightarrow> error + (out_row list \<times> string list)" where
  "preprocess_ndvi_difference_geotiffs shapely gdf years tifs ignore_empty_geom =
     (case preprocess_geotiff_dataset gdf years of
        Inl e \<Rightarrow> Inl e
      | Inr imgs \<Rightarrow>
          (let year_pairs = sort (drop_duplicates (map (\<lambda>r. (start_year r, end_year r)) gdf));
               mapped_gdfs =
                 map (\<lambda>(sy, ey).
                        let target_years = filter (\<lambda>r. start_year r = sy \<and> end_year r = ey) gdf;
                            gdf_mapped = map_geometry_to_geotiffs shapely target_years tifs
                        in map (insert_years sy ey) gdf_mapped)
                     year_pairs
           in if mapped_gdfs = [] then Inl ValueError
              else
                let gdf1 = concat mapped_gdfs;
                    unused_chips =
                      (if ignore_empty_geom
                       then map m_path (filter (\<lambda>r. is_empty (m_geometry r)) gdf1)
                       else []);
                    gdf2 = (if ignore_empty_geom
                            then filter (\<lambda>r. \<not> is_empty (m_geometry r)) gdf1
                            else gdf1)
                in Inr (sort_key (\<lambda>r. (o_start_year r, o_end_year r)) (drop_duplicates gdf2),
                        unused_chips)))"

text \<open>The footprint of a chip file: the polygon that \<^verbatim>\<open>map_geometry_to_geotiffs\<close> builds
  for it from the window over the whole chip.\<close>

definition footprint :: "tif_file \<Rightarrow> geometry" where
  "footprint f =
     create_chip_polygon (opened f)
       \<lparr>col_off = 0, row_off = 0,
        win_width = src_width (opened f), win_height = src_height (opened f)\<rparr>"

subsection \<open>Concrete inputs\<close>

text \<open>A world in which the lock is free and nothing has been written.\<close>

definition world0 :: world where
  "world0 = \<lparr>writelock = \<lparr>locked = False\<rparr>, files = {}, dirs = {}, stderr = []\<rparr>"

definition meta0 :: meta where
  "meta0 = \<lparr>meta_height = 0, meta_width = 0, meta_transform = None, meta_rest = []\<rparr>"

text \<open>
  A north-up raster of n by n pixels of size 1 whose upper left corner is at (0, n):
  the index lookup is the floor of the inverse transform, and the corners of the bounds
  are found at (0, 0) and (n, n). Every pixel holds \<open>v\<close>.
\<close>

definition square_raster :: "int \<Rightarrow> pixel \<Rightarrow> pixel option \<Rightarrow> raster" where
  "square_raster n v nd =
     \<lparr>bounds = (0, 0, real_of_int n, real_of_int n),
      index = (\<lambda>x y. (\<lfloor>real_of_int n - y\<rfloor>, \<lfloor>x\<rfloor>)),
      xy = (\<lambda>row col. (real_of_int col + 1 / 2, real_of_int n - (real_of_int row + 1 / 2))),
      nodata = nd,
      read = (\<lambda>win. Inr \<lparr>shape = (nat (win_height win), nat (win_width win)),
                          data = replicate (nat (win_height win) * nat (win_width win)) v\<rparr>),
      window_transform =
        (\<lambda>win p. (real_of_int (col_off win) + fst p, real_of_int n - real_of_int (row_off win) - snd p)),
      src_meta = meta0\<lparr>meta_height := nat n, meta_width := nat n\<rparr>,
      src_width = n, src_height = n\<rparr>"

definition tif :: "string \<Rightarrow> string \<Rightarrow> raster \<Rightarrow> tif_file" where
  "tif dir stem src =
     \<lparr>tif_path = dir @ ''/'' @ stem @ ''.tif'', tif_name = stem @ ''.tif'', tif_stem = stem,
      opened = src\<rparr>"

text \<open>Encoders that succeed, and encoders that raise.\<close>

definition ok_io :: rasterio_io where
  "ok_io = \<lparr>disk_write = (\<lambda>p m a. None), mem_write_read = (\<lambda>m a. Inr a)\<rparr>"

definition failing_io :: rasterio_io where
  "failing_io = \<lparr>disk_write = (\<lambda>p m a. Some (IOFailure p)),
                 mem_write_read = (\<lambda>m a. Inl (IOFailure ''memory''))\<rparr>"

definition failing_save :: "(string, nat list) gdal_io" where
  "failing_save = \<lparr>open_ds = (\<lambda>p. Inr p), render = (\<lambda>ds. Inr [0]),
                   imsave = (\<lambda>p img. Some (IOFailure p))\<rparr>"

definition two_pixels :: ndarray where
  "two_pixels = \<lparr>shape = (1, 2), data = [Val 1, Val 2]\<rparr>"

text \<open>Shapely operations that leave a ring as it is and find no intersection.\<close>

definition plain_shapely :: shapely_ops where
  "plain_shapely = \<lparr>make_polygon = Inr,
       simplify = (\<lambda>tol keep ring. ring), normalize = (\<lambda>ring. ring),
       intersects = (\<lambda>a b. False), intersection = (\<lambda>a b. Polygon [])\<rparr>"

text \<open>A GeoTIFF of 3 by 3 pixels, all of them the no-data value -9999, and the world
  after its one chip has been written.\<close>

definition nodata_tif :: tif_file where
  "nodata_tif = tif ''in'' ''r'' (square_raster 3 (Val (- 9999)) (Some (Val (- 9999))))"

definition world1 :: world where
  "world1 = world0\<lparr>files := {''out/r_chip_0_0.tif''}, dirs := {''out''}\<rparr>"

text \<open>One chip file and one annotation far away from it.\<close>

definition chip_tifs :: "tif_file list" where
  "chip_tifs = [tif ''out'' ''r_chip_0_0'' (square_raster 2 (Val 1) None)]"

definition far_annotation :: "gdf_row list" where
  "far_annotation =
     [\<lparr>geometry = Some (Polygon [(10, 10), (11, 10), (11, 11), (10, 10)]),
       start_year = 2015, end_year = 2019, filename = ''r.tif'', path = ''in/r.tif''\<rparr>]"

section \<open>Properties\<close>

subsection \<open>File names\<close>

lemma str_int_2015: "str_int 2015 = ''2015''"
  by (simp add: str_int_def str_nat.simps digit_char_def)

lemma str_int_2019: "str_int 2019 = ''2019''"
  by (simp add: str_int_def str_nat.simps digit_char_def)

text \<open>
  C8. The metadata Subregion "A12E", StartYear 2015, EndYear 2019 gives exactly the file
  name "A12_Expanded_2015to2019_NDVI_Difference.tif"; and for every subregion that ends
  in a digit the name is the subregion, an underscore, the years and the fixed ending,
  with no "_Expanded" segment put in between.
\<close>

theorem parse_filename_convention:
  "parse_filename \<lparr>Subregion = ''A12E'', StartYear = 2015, EndYear = 2019\<rparr>
     = Inr ''A12_Expanded_2015to2019_NDVI_Difference.tif''
   \<and> (Subregion s \<noteq> [] \<and> isdigit (last (Subregion s)) \<longrightarrow>
        parse_filename s
          = Inr (Subregion s @ ''_'' @ str_int (StartYear s) @ ''to'' @ str_int (EndYear s)
                 @ ''_NDVI_Difference.tif''))"
proof
  show "parse_filename \<lparr>Subregion = ''A12E'', StartYear = 2015, EndYear = 2019\<rparr>
          = Inr ''A12_Expanded_2015to2019_NDVI_Difference.tif''"
    by (simp add: parse_filename_def Let_def isdigit_def str_int_2015 str_int_2019)
next
  show "Subregion s \<noteq> [] \<and> isdigit (last (Subregion s)) \<longrightarrow>
        parse_filename s
          = Inr (Subregion s @ ''_'' @ str_int (StartYear s) @ ''to'' @ str_int (EndYear s)
                 @ ''_NDVI_Difference.tif'')"
    by (simp add: parse_filename_def Let_def)
qed

theorem parse_filename_convention_witness:
  "isdigit (last ''A12'')
   \<and> parse_filename \<lparr>Subregion = ''A12'', StartYear = 2015, EndYear = 2019\<rparr>
       = Inr ''A12_2015to2019_NDVI_Difference.tif''"
  using parse_filename_convention [of "\<lparr>Subregion = ''A12'', StartYear = 2015, EndYear = 2019\<rparr>"]
  by (simp add: isdigit_def str_int_2015 str_int_2019)

subsection \<open>Class encoding\<close>

text \<open>
  C10. The default encoder gives (0, "Treatment") exactly when the row's geometry is
  present, not empty and of area strictly greater than 1, and (-1, "Background") in
  every other case; a polygon of area at most 1 is Background.
\<close>

theorem encode_default_classes_iff:
  "(encode_default_classes area row = (0, ''Treatment'')
      \<longleftrightarrow> (\<exists>g. geometry row = Some g \<and> \<not> is_empty g \<and> area g > 1))
   \<and> (\<not> (\<exists>g. geometry row = Some g \<and> \<not> is_empty g \<and> area g > 1)
        \<longrightarrow> encode_default_classes area row = (- 1, ''Background''))"
  by (auto simp: encode_default_classes_def split: option.splits)

theorem encode_default_classes_iff_witness:
  "encode_default_classes (\<lambda>g. 1)
      \<lparr>geometry = Some (Polygon [(0, 0), (1, 0), (1, 1), (0, 1), (0, 0)])\<rparr>
     = (- 1, ''Background'')"
  using encode_default_classes_iff
    [of "\<lambda>g. 1" "\<lparr>geometry = Some (Polygon [(0, 0), (1, 0), (1, 1), (0, 1), (0, 0)])\<rparr>"]
  by simp

subsection \<open>The write lock\<close>

lemma request_writelock_acquired:
  assumes "request_writelock w = Some w'"
  shows "\<not> is_locked (writelock w)"
proof (rule request_writelock.raw_induct [where P = "\<lambda>w w'. \<not> is_locked (writelock w)", OF _ assms])
  fix f w w'
  assume "(if is_locked (writelock w) then f w else Some (w\<lparr>writelock := lock (writelock w)\<rparr>)) = Some w'"
    and "\<And>x y. f x = Some y \<Longrightarrow> \<not> is_locked (writelock x)"
  then show "\<not> is_locked (writelock w)"
    by (cases "is_locked (writelock w)") auto
qed

text \<open>With the lock held and no other thread to free it, the request never returns.\<close>

lemma request_writelock_held: "is_locked (writelock w) \<Longrightarrow> request_writelock w = None"
  using request_writelock_acquired [of w] by (cases "request_writelock w") auto

lemma request_writelock_free:
  "\<not> is_locked (writelock w) \<Longrightarrow>
     request_writelock w = Some (w\<lparr>writelock := lock (writelock w)\<rparr>)"
  by (subst request_writelock.simps) simp

lemma free_writelock_unlocked: "\<not> is_locked (writelock (free_writelock w))"
  by (simp add: free_writelock_def unlock_def is_locked_def)

lemma write_chip_acquires:
  "write_chip io dat t m out w = Some (r, w') \<Longrightarrow> \<not> is_locked (writelock w)"
  by (auto simp: write_chip_def Let_def split: option.splits dest: request_writelock_acquired)

lemma write_chip_returns_unlocked:
  "write_chip io dat t m out w = Some (r, w') \<Longrightarrow> \<not> is_locked (writelock w')"
  by (auto simp: write_chip_def Let_def free_writelock_unlocked split: option.splits sum.splits)

lemma world0_free: "\<not> is_locked (writelock world0)"
  by (simp add: world0_def is_locked_def)

text \<open>
  C5, as the code has it. A call of \<^verbatim>\<open>write_chip\<close> or of \<^verbatim>\<open>tiff_to_png\<close> that finds the
  lock free takes it, returns, and leaves the lock free, also when the guarded encoder
  raises. \<^verbatim>\<open>write_chip\<close> then raises that exception again. \<^verbatim>\<open>tiff_to_png\<close> does not: it
  prints the exception on standard error and returns the image.
\<close>

theorem writelock_released:
  "(\<not> is_locked (writelock w) \<longrightarrow>
      (\<exists>r w'. write_chip io dat t m out w = Some (r, w') \<and> \<not> is_locked (writelock w')
         \<and> (\<forall>p e. out = Some p
                \<and> disk_write io p
                    (m\<lparr>meta_height := fst (shape dat), meta_width := snd (shape dat),
                        meta_transform := Some t\<rparr>) dat = Some e \<longrightarrow> r = Inl e)
         \<and> (\<forall>e. out = None
                \<and> mem_write_read io
                    (m\<lparr>meta_height := fst (shape dat), meta_width := snd (shape dat),
                        meta_transform := Some t\<rparr>) dat = Inl e \<longrightarrow> r = Inl e)))
   \<and> (\<not> is_locked (writelock v) \<and> open_ds gio tiff = Inr ds \<and> render gio ds = Inr png \<longrightarrow>
      (\<exists>v'. tiff_to_png gio tiff (Some q) v = Some (Inr (Some png), v')
         \<and> \<not> is_locked (writelock v')
         \<and> (\<forall>e. imsave gio q png = Some e \<longrightarrow> stderr v' = stderr v @ [e])))"
  by (auto simp: write_chip_def tiff_to_png_def Let_def request_writelock_free free_writelock_def
        unlock_def lock_def is_locked_def split: option.splits sum.splits)

theorem writelock_released_witness:
  "\<not> is_locked (writelock world0)
   \<and> write_chip failing_io two_pixels id meta0 (Some ''c.tif'') world0
       = Some (Inl (IOFailure ''c.tif''), world0)
   \<and> tiff_to_png failing_save ''a.tif'' (Some ''a.png'') world0
       = Some (Inr (Some [0]), world0\<lparr>stderr := [IOFailure ''a.png'']\<rparr>)"
  using writelock_released [of world0 failing_io two_pixels id meta0 "Some ''c.tif''"
      world0 failing_save "''a.tif''" "''a.tif''" "[0]" "''a.png''"]
  by (simp add: write_chip_def tiff_to_png_def Let_def request_writelock_free free_writelock_def
        unlock_def lock_def is_locked_def world0_def failing_io_def failing_save_def)

text \<open>
  C5 as stated fails for \<^verbatim>\<open>tiff_to_png\<close>: the save raises, and the call returns the image
  instead of raising.
\<close>

theorem tiff_to_png_not_reraised:
  "imsave failing_save ''a.png'' [0] = Some (IOFailure ''a.png'')
   \<and> tiff_to_png failing_save ''a.tif'' (Some ''a.png'') world0
       = Some (Inr (Some [0]), world0\<lparr>stderr := [IOFailure ''a.png'']\<rparr>)"
  by (simp add: tiff_to_png_def request_writelock_free free_writelock_def
        unlock_def lock_def is_locked_def world0_def failing_save_def)

subsection \<open>The value of \<^verbatim>\<open>write_chip\<close>\<close>

text \<open>
  C9. A call of \<^verbatim>\<open>write_chip\<close> with an output path that finds the lock free and whose
  encoder does not raise returns, and returns \<^verbatim>\<open>None\<close>, with the file written and the
  lock free again. A call without an output path that finds the lock free and whose
  memory file decodes to an array with as many elements as the input buffer returns,
  and returns that array with exactly the shape of the input buffer. No call returns
  anything else: whenever a call with a path returns, it returns \<^verbatim>\<open>None\<close>, and whenever
  a call without a path returns, it returns the decoded array reshaped to the shape of
  the input.
\<close>

theorem write_chip_result:
  "(\<not> is_locked (writelock w)
      \<and> disk_write io p
           (m\<lparr>meta_height := fst (shape dat), meta_width := snd (shape dat),
               meta_transform := Some t\<rparr>) dat = None
      \<longrightarrow> write_chip io dat t m (Some p) w
            = Some (Inr None, w\<lparr>writelock := \<lparr>locked = False\<rparr>, files := insert p (files w)\<rparr>))
   \<and> (\<not> is_locked (writelock v)
      \<and> mem_write_read io
           (m\<lparr>meta_height := fst (shape dat), meta_width := snd (shape dat),
               meta_transform := Some t\<rparr>) dat = Inr decoded
      \<and> length (data decoded) = fst (shape dat) * snd (shape dat)
      \<longrightarrow> write_chip io dat t m None v
            = Some (Inr (Some (decoded\<lparr>shape := shape dat\<rparr>)), v\<lparr>writelock := \<lparr>locked = False\<rparr>\<rparr>))
   \<and> (write_chip io dat t m (Some p) w = Some (Inr res, w') \<longrightarrow> res = None)
   \<and> (write_chip io dat t m None v = Some (Inr res', v') \<longrightarrow>
        (\<exists>arr. mem_write_read io
                  (m\<lparr>meta_height := fst (shape dat), meta_width := snd (shape dat),
                      meta_transform := Some t\<rparr>) dat = Inr arr
               \<and> res' = Some (arr\<lparr>shape := shape dat\<rparr>)))"
proof (intro conjI impI)
  assume "\<not> is_locked (writelock w)
      \<and> disk_write io p
           (m\<lparr>meta_height := fst (shape dat), meta_width := snd (shape dat),
               meta_transform := Some t\<rparr>) dat = None"
  then show "write_chip io dat t m (Some p) w
            = Some (Inr None, w\<lparr>writelock := \<lparr>locked = False\<rparr>, files := insert p (files w)\<rparr>)"
    by (simp add: write_chip_def Let_def request_writelock_free free_writelock_def
          unlock_def lock_def)
next
  assume "\<not> is_locked (writelock v)
      \<and> mem_write_read io
           (m\<lparr>meta_height := fst (shape dat), meta_width := snd (shape dat),
               meta_transform := Some t\<rparr>) dat = Inr decoded
      \<and> length (data decoded) = fst (shape dat) * snd (shape dat)"
  then show "write_chip io dat t m None v
            = Some (Inr (Some (decoded\<lparr>shape := shape dat\<rparr>)), v\<lparr>writelock := \<lparr>locked = False\<rparr>\<rparr>)"
    by (simp add: write_chip_def Let_def reshape_def request_writelock_free free_writelock_def
          unlock_def lock_def)
next
  assume "write_chip io dat t m (Some p) w = Some (Inr res, w')"
  then show "res = None"
    by (auto simp: write_chip_def Let_def split: option.splits sum.splits)
next
  assume "write_chip io dat t m None v = Some (Inr res', v')"
  then show "\<exists>arr. mem_write_read io
                  (m\<lparr>meta_height := fst (shape dat), meta_width := snd (shape dat),
                      meta_transform := Some t\<rparr>) dat = Inr arr
               \<and> res' = Some (arr\<lparr>shape := shape dat\<rparr>)"
    by (auto simp: write_chip_def Let_def reshape_def split: option.splits sum.splits if_splits)
qed

theorem write_chip_result_witness:
  "\<not> is_locked (writelock world0)
   \<and> disk_write ok_io ''c.tif''
        (meta0\<lparr>meta_height := 1, meta_width := 2, meta_transform := Some id\<rparr>) two_pixels = None
   \<and> write_chip ok_io two_pixels id meta0 (Some ''c.tif'') world0
       = Some (Inr None, world0\<lparr>files := {''c.tif''}\<rparr>)
   \<and> mem_write_read ok_io
        (meta0\<lparr>meta_height := 1, meta_width := 2, meta_transform := Some id\<rparr>) two_pixels
       = Inr two_pixels
   \<and> write_chip ok_io two_pixels id meta0 None world0 = Some (Inr (Some two_pixels), world0)"
  using write_chip_result [where io = ok_io and dat = two_pixels and t = id and m = meta0
      and p = "''c.tif''" and w = world0 and v = world0 and decoded = two_pixels
      and res = None and w' = "world0\<lparr>files := {''c.tif''}\<rparr>"
      and res' = "Some two_pixels" and v' = world0]
  by (simp add: is_locked_def world0_def ok_io_def two_pixels_def)

subsection \<open>Geographic points to pixels\<close>

text \<open>
  C4. For a polygon, the conversion does not raise. It simplifies the polygon with
  tolerance 0.002, keeping the topology, and returns one point for every vertex of the
  exterior ring of the result, in order: with (row, col) the index lookup of the vertex,
  the point is x = col clamped into [0, width - 1] and y = row clamped into
  [0, height - 1]. So a vertex found inside the raster gives (col, row) unchanged, and on
  a raster of positive width and height every point returned lies in
  [0, width - 1] x [0, height - 1].
\<close>

theorem geotiff_convert_geometry_to_pixels_clipped:
  "\<exists>pixels.
     geotiff_convert_geometry_to_pixels shapely parse src (Geom (Polygon ring)) = Inr pixels
     \<and> length pixels = length (normalize shapely (simplify shapely (2 / 1000) True ring))
     \<and> (\<forall>i < length pixels.
           pixels ! i =
             (let vertex = normalize shapely (simplify shapely (2 / 1000) True ring) ! i;
                  row = fst (index src (fst vertex) (snd vertex));
                  col = snd (index src (fst vertex) (snd vertex))
              in (max 0 (min col (src_width src - 1)), max 0 (min row (src_height src - 1)))))
     \<and> (\<forall>i < length pixels.
           (let vertex = normalize shapely (simplify shapely (2 / 1000) True ring) ! i;
                row = fst (index src (fst vertex) (snd vertex));
                col = snd (index src (fst vertex) (snd vertex))
            in 0 \<le> col \<and> col \<le> src_width src - 1 \<and> 0 \<le> row \<and> row \<le> src_height src - 1
               \<longrightarrow> pixels ! i = (col, row)))
     \<and> (0 < src_width src \<and> 0 < src_height src \<longrightarrow>
          (\<forall>(x, y) \<in> set pixels.
             0 \<le> x \<and> x \<le> src_width src - 1 \<and> 0 \<le> y \<and> y \<le> src_height src - 1))"
  by (auto simp: geotiff_convert_geometry_to_pixels_def clip_points_def Let_def case_prod_beta)

text \<open>On the raster of 600 by 600 pixels: a vertex inside stays where it is, the lower
  right corner of the bounds goes to (599, 599), and a vertex just outside the upper left
  corner goes to (0, 0).\<close>

theorem geotiff_convert_geometry_to_pixels_clipped_witness:
  "geotiff_convert_geometry_to_pixels plain_shapely (\<lambda>s. Inl ValueError)
       (square_raster 600 (Val 1) None)
       (Geom (Polygon [(7 / 2, 1191 / 2), (600, 0), (- 1 / 2, 1201 / 2), (7 / 2, 1191 / 2)]))
     = Inr [(3, 4), (599, 599), (0, 0), (3, 4)]"
  using geotiff_convert_geometry_to_pixels_clipped
    [of plain_shapely "\<lambda>s. Inl ValueError" "square_raster 600 (Val 1) None"
        "[(7 / 2, 1191 / 2), (600, 0), (- 1 / 2, 1201 / 2), (7 / 2, 1191 / 2)]"]
  by (simp add: geotiff_convert_geometry_to_pixels_def clip_points_def plain_shapely_def
        square_raster_def)

subsection \<open>Tiling\<close>

lemma pixel_bounds_square: "0 \<le> n \<Longrightarrow> pixel_bounds (square_raster n v nd) = (0, 0, n, n)"
  by (simp add: pixel_bounds_def square_raster_def)

lemma py_range_600: "py_range 0 600 256 = [0, 256, 512]"
  by (simp add: py_range.simps)

lemma py_range_bounds: "x \<in> set (py_range start stop step) \<Longrightarrow> start \<le> x \<and> x < stop"
proof (induction start stop step rule: py_range.induct)
  case (1 start stop step)
  show ?case
  proof (cases "0 < step \<and> start < stop")
    case True
    with "1.prems" have "x = start \<or> x \<in> set (py_range (start + step) stop step)"
      by (subst (asm) py_range.simps) auto
    with True "1.IH" show ?thesis by auto
  next
    case False
    with "1.prems" show ?thesis
      by (subst (asm) py_range.simps) auto
  qed
qed

text \<open>Every window lies inside the pixel bounds, and ends before the last row and the
  last column of the bounds.\<close>

lemma chip_windows_inside:
  assumes "win \<in> set (chip_windows src chip_size)"
    and "pixel_bounds src = (rmin, cmin, rmax, cmax)"
  shows "rmin \<le> row_off win \<and> 0 \<le> win_height win \<and> row_off win + win_height win < rmax
       \<and> cmin \<le> col_off win \<and> 0 \<le> win_width win \<and> col_off win + win_width win < cmax"
proof -
  obtain width height where wh: "resolve_chip_size chip_size (rmin, cmin, rmax, cmax) = (width, height)"
    by (cases "resolve_chip_size chip_size (rmin, cmin, rmax, cmax)")
  from assms wh have pos: "0 < width" "0 < height"
    by (auto simp: chip_windows_def Let_def split: if_splits)
  from assms wh pos obtain row col where
    "row \<in> set (py_range rmin rmax height)" "col \<in> set (py_range cmin cmax width)"
    and win: "win = window_at rmax cmax (width, height) row col"
    by (auto simp: chip_windows_def Let_def grid_def split: if_splits)
  then have "rmin \<le> row \<and> row < rmax" "cmin \<le> col \<and> col < cmax"
    by (auto dest: py_range_bounds)
  with pos win show ?thesis
    by (auto simp: window_at_def Let_def)
qed

text \<open>
  C1, on the code. For a raster of 600 by 600 pixels and chips of 256 by 256 the loop
  builds nine windows, and the windows of the last row and of the last column are 87
  high and 87 wide: the code takes one pixel less than what is left up to the edge.
\<close>

theorem chip_windows_600:
  "chip_windows (square_raster 600 (Val 1) None) (Some 256, Some 256) =
     [\<lparr>col_off = 0, row_off = 0, win_width = 256, win_height = 256\<rparr>,
      \<lparr>col_off = 256, row_off = 0, win_width = 256, win_height = 256\<rparr>,
      \<lparr>col_off = 512, row_off = 0, win_width = 87, win_height = 256\<rparr>,
      \<lparr>col_off = 0, row_off = 256, win_width = 256, win_height = 256\<rparr>,
      \<lparr>col_off = 256, row_off = 256, win_width = 256, win_height = 256\<rparr>,
      \<lparr>col_off = 512, row_off = 256, win_width = 87, win_height = 256\<rparr>,
      \<lparr>col_off = 0, row_off = 512, win_width = 256, win_height = 87\<rparr>,
      \<lparr>col_off = 256, row_off = 512, win_width = 256, win_height = 87\<rparr>,
      \<lparr>col_off = 512, row_off = 512, win_width = 87, win_height = 87\<rparr>]"
  by (simp add: chip_windows_def pixel_bounds_square resolve_chip_size_def grid_def
        py_range_600 window_at_def)

text \<open>
  C2, on the code. On the same raster no window covers the pixel in row 599 and
  column 0: the windows leave a gap along the lower and the right edge.
\<close>

theorem uncovered_pixel_600:
  "filter (\<lambda>win. covers win 599 0) (chip_windows (square_raster 600 (Val 1) None) (Some 256, Some 256)) = []"
  by (simp add: chip_windows_def pixel_bounds_square resolve_chip_size_def grid_def
        py_range_600 window_at_def covers_def)

subsection \<open>Chips without data\<close>

lemma py_range_3: "py_range 0 3 2 = [0, 2]"
  by (simp add: py_range.simps)

lemma str_int_0: "str_int 0 = ''0''"
  by (simp add: str_int_def str_nat.simps digit_char_def)
lemma str_int_2: "str_int 2 = ''2''"
  by (simp add: str_int_def str_nat.simps digit_char_def)

lemma opened_tif: "opened (tif d s r) = r" and tif_stem_tif: "tif_stem (tif d s r) = s"
  by (simp_all add: tif_def)

lemma process_window_skip:
  assumes "read (opened f) (window_at rmax cmax chip_wh (fst rc) (snd rc)) = Inr raw"
    and "no_relevant_data (nodata (opened f)) (mask_nodata (nodata (opened f)) raw) = Inr True"
    and "exist_ok \<or> chip_output_path d (tif_stem f) (fst rc) (snd rc) \<notin> files w"
  shows "process_window io f rmax cmax chip_wh (Some d) exist_ok rc chips w
           = Some (Inr chips, w\<lparr>dirs := insert d (dirs w)\<rparr>)"
  using assms by (auto simp: process_window_def Let_def)

lemma zero_dimension_no_relevant_data:
  "fst (shape a) = 0 \<or> snd (shape a) = 0 \<Longrightarrow> no_relevant_data nd a = Inr True"
  by (auto simp: no_relevant_data_def Let_def)

lemma shape_mask_nodata: "shape (mask_nodata nd a) = shape a"
  by (simp add: mask_nodata_def)

lemma read_square:
  "read (square_raster n v nd) win
     = Inr \<lparr>shape = (nat (win_height win), nat (win_width win)),
            data = replicate (nat (win_height win) * nat (win_width win)) v\<rparr>"
  by (simp add: square_raster_def)

lemma nodata_square: "nodata (square_raster n v nd) = nd"
  by (simp add: square_raster_def)

lemma write_chip_ok_disk:
  "\<not> is_locked (writelock w) \<Longrightarrow>
     write_chip ok_io dat t m (Some p) w
       = Some (Inr None, w\<lparr>writelock := \<lparr>locked = False\<rparr>, files := insert p (files w)\<rparr>)"
  by (simp add: write_chip_def Let_def request_writelock_free is_locked_def lock_def
        free_writelock_def unlock_def ok_io_def)

lemma all_nodata_relevant:
  "no_relevant_data (Some (Val (- 9999)))
     (mask_nodata (Some (Val (- 9999))) \<lparr>shape = (2, 2), data = replicate 4 (Val (- 9999))\<rparr>)
     = Inr False"
  by (simp add: no_relevant_data_def mask_nodata_def array_max_def eval_nat_numeral)

lemma step_0_0:
  "process_window ok_io nodata_tif 3 3 (2, 2) (Some ''out'') False (0, 0) [] world0
     = Some (Inr [(None, (1 / 2, 5 / 2))], world1)"
proof -
  have win: "window_at 3 3 (2, 2) 0 0 = \<lparr>col_off = 0, row_off = 0, win_width = 2, win_height = 2\<rparr>"
    by (simp add: window_at_def)
  have rd: "read (opened nodata_tif) \<lparr>col_off = 0, row_off = 0, win_width = 2, win_height = 2\<rparr>
              = Inr \<lparr>shape = (2, 2), data = replicate 4 (Val (- 9999))\<rparr>"
    by (simp add: nodata_tif_def opened_tif read_square)
  have nd: "nodata (opened nodata_tif) = Some (Val (- 9999))"
    by (simp add: nodata_tif_def opened_tif nodata_square)
  have p: "chip_output_path ''out'' (tif_stem nodata_tif) 0 0 = ''out/r_chip_0_0.tif''"
    by (simp add: chip_output_path_def nodata_tif_def tif_stem_tif str_int_0)
  have xy0: "xy (opened nodata_tif) 0 0 = (1 / 2, 5 / 2)"
    by (simp add: nodata_tif_def opened_tif square_raster_def)
  show ?thesis
    by (simp add: process_window_def Let_def win rd nd p xy0 all_nodata_relevant
          write_chip_ok_disk world0_free)
       (simp add: world0_def world1_def)
qed


lemma world1_dirs: "world1\<lparr>dirs := insert ''out'' (dirs world1)\<rparr> = world1"
  by (simp add: world1_def world0_def)

lemma step_skip:
  assumes "(row, col) \<in> {(0, 2), (2, 0), (2, 2)}"
  shows "process_window ok_io nodata_tif 3 3 (2, 2) (Some ''out'') False (row, col) chips world1
           = Some (Inr chips, world1)"
proof -
  have "process_window ok_io nodata_tif 3 3 (2, 2) (Some ''out'') False (row, col) chips world1
           = Some (Inr chips, world1\<lparr>dirs := insert ''out'' (dirs world1)\<rparr>)"
  proof (rule process_window_skip)
    show "read (opened nodata_tif) (window_at 3 3 (2, 2) (fst (row, col)) (snd (row, col)))
            = Inr \<lparr>shape = (nat (win_height (window_at 3 3 (2, 2) row col)),
                             nat (win_width (window_at 3 3 (2, 2) row col))),
                    data = replicate (nat (win_height (window_at 3 3 (2, 2) row col))
                                      * nat (win_width (window_at 3 3 (2, 2) row col)))
                             (Val (- 9999))\<rparr>"
      by (simp add: nodata_tif_def opened_tif read_square)
    show "no_relevant_data (nodata (opened nodata_tif))
            (mask_nodata (nodata (opened nodata_tif))
               \<lparr>shape = (nat (win_height (window_at 3 3 (2, 2) row col)),
                          nat (win_width (window_at 3 3 (2, 2) row col))),
                 data = replicate (nat (win_height (window_at 3 3 (2, 2) row col))
                                   * nat (win_width (window_at 3 3 (2, 2) row col)))
                          (Val (- 9999))\<rparr>) = Inr True"
      using assms
      by (intro zero_dimension_no_relevant_data) (auto simp: shape_mask_nodata window_at_def)
    show "False \<or> chip_output_path ''out'' (tif_stem nodata_tif) (fst (row, col)) (snd (row, col)) \<notin> files world1"
      using assms
      by (auto simp: chip_output_path_def nodata_tif_def tif_stem_tif world1_def world0_def str_int_0 str_int_2)
  qed
  then show ?thesis by (simp add: world1_dirs)
qed

text \<open>
  C3, on the code. A window of 2 by 2 pixels that are all no-data is not skipped: after
  the no-data values have been replaced by the not-a-number marker, the maximum is the
  marker, which is equal neither to zero nor to the no-data value. The chip is written
  and returned. The three other windows have a side of zero pixels and are skipped.
\<close>

theorem nodata_chip_kept:
  "create_chips_from_geotiff ok_io
       (tif ''in'' ''r'' (square_raster 3 (Val (- 9999)) (Some (Val (- 9999)))))
       (Some 2, Some 2) (Some ''out'') False world0
     = Some (Inr [(None, (1 / 2, 5 / 2))],
             world0\<lparr>files := {''out/r_chip_0_0.tif''}, dirs := {''out''}\<rparr>)"
proof -
  have "create_chips_from_geotiff ok_io nodata_tif (Some 2, Some 2) (Some ''out'') False world0
          = process_windows ok_io nodata_tif 3 3 (2, 2) (Some ''out'') False
              [(0, 0), (0, 2), (2, 0), (2, 2)] [] world0"
    by (simp add: create_chips_from_geotiff_def nodata_tif_def opened_tif pixel_bounds_square
          resolve_chip_size_def grid_def py_range_3)
  also have "\<dots> = Some (Inr [(None, (1 / 2, 5 / 2))], world1)"
    by (simp add: step_0_0 step_skip)
  finally show ?thesis
    by (simp add: nodata_tif_def world1_def)
qed

subsection \<open>Chips without annotation\<close>

lemma set_drop_seen: "set (drop_seen seen xs) = set xs - set seen"
  by (induction xs arbitrary: seen) auto

lemma set_drop_duplicates: "set (drop_duplicates xs) = set xs"
  by (simp add: drop_duplicates_def set_drop_seen)

lemma filter_drop_seen:
  "filter P (drop_seen seen xs) = drop_seen (filter P seen) (filter P xs)"
  by (induction xs arbitrary: seen) auto

lemma filter_drop_duplicates:
  "filter P (drop_duplicates xs) = drop_duplicates (filter P xs)"
  by (simp add: drop_duplicates_def filter_drop_seen)

lemma drop_duplicates_Nil_iff: "drop_duplicates xs = [] \<longleftrightarrow> xs = []"
  by (cases xs) (simp_all add: drop_duplicates_def)

lemma explode_path: "r' \<in> set (explode r) \<Longrightarrow> m_path r' = m_path r"
  by (auto simp: explode_def split: geometry.splits)

lemma rows_of_image_path: "r \<in> set (rows_of_image shapely gdf f) \<Longrightarrow> m_path r = tif_path f"
  by (auto simp: rows_of_image_def Let_def split: if_splits option.splits)

lemma rows_of_image_disjoint:
  assumes "\<forall>r \<in> set gdf. \<forall>g. geometry r = Some g \<longrightarrow> \<not> intersects shapely g (footprint f)"
  shows "rows_of_image shapely gdf f =
           [\<lparr>m_filename = tif_name f, m_path = tif_path f, m_width = src_width (opened f),
             m_height = src_height (opened f), m_geometry = Polygon []\<rparr>]"
proof -
  have "filter (\<lambda>r. case geometry r of None \<Rightarrow> False
                     | Some g \<Rightarrow> intersects shapely g (footprint f)) gdf = []"
    using assms by (auto simp: filter_empty_conv split: option.splits)
  then show ?thesis
    unfolding footprint_def by (simp add: rows_of_image_def Let_def)
qed

lemma filter_concat_map_other:
  assumes "\<And>x y. x \<in> set xs \<Longrightarrow> y \<in> set (g x) \<Longrightarrow> P y \<longleftrightarrow> Q x"
  shows "filter P (concat (map g xs)) = concat (map g (filter Q xs))"
  using assms
proof (induction xs)
  case Nil
  then show ?case by simp
next
  case (Cons x xs)
  have "filter P (g x) = (if Q x then g x else [])"
    using Cons.prems [of x] by (auto simp: filter_empty_conv filter_id_conv)
  with Cons show ?case by simp
qed

lemma filter_path_distinct:
  assumes "distinct (map tif_path tifs)" and "f \<in> set tifs"
  shows "filter (\<lambda>f'. tif_path f' = tif_path f) tifs = [f]"
  using assms
proof (induction tifs)
  case Nil
  then show ?case by simp
next
  case (Cons a tifs)
  show ?case
  proof (cases "a = f")
    case True
    with Cons.prems have "\<forall>f' \<in> set tifs. tif_path f' \<noteq> tif_path f"
      by (auto simp: image_iff)
    then have "filter (\<lambda>f'. tif_path f' = tif_path f) tifs = []"
      by (simp add: filter_empty_conv)
    with True show ?thesis by simp
  next
    case False
    with Cons.prems have "f \<in> set tifs" and "tif_path a \<noteq> tif_path f"
      by (auto simp: image_iff)
    with Cons show ?thesis by simp
  qed
qed


lemma explode_empty_polygon: "m_geometry r = Polygon [] \<Longrightarrow> explode r = [r]"
  by (simp add: explode_def)

lemma map_geometry_rows_of:
  assumes "distinct (map tif_path tifs)" and "f \<in> set tifs"
    and "compare_stem (tif_stem f) (map splitext_root (drop_duplicates (map filename gdf)))"
  shows "filter (\<lambda>r. m_path r = tif_path f) (map_geometry_to_geotiffs shapely gdf tifs)
           = drop_duplicates (concat (map explode (rows_of_image shapely gdf f)))"
proof -
  let ?stems = "map splitext_root (drop_duplicates (map filename gdf))"
  let ?images = "filter (\<lambda>f. compare_stem (tif_stem f) ?stems) tifs"
  let ?P = "\<lambda>r. m_path r = tif_path f"
  have "filter (\<lambda>f'. tif_path f' = tif_path f) ?images
          = filter (\<lambda>f. compare_stem (tif_stem f) ?stems) (filter (\<lambda>f'. tif_path f' = tif_path f) tifs)"
    by (simp add: conj_commute)
  also have "\<dots> = [f]"
    using assms by (simp add: filter_path_distinct)
  finally have images: "filter (\<lambda>f'. tif_path f' = tif_path f) ?images = [f]" .
  have rows: "filter ?P (concat (map (rows_of_image shapely gdf) ?images))
                = concat (map (rows_of_image shapely gdf) (filter (\<lambda>f'. tif_path f' = tif_path f) ?images))"
    by (rule filter_concat_map_other) (simp add: rows_of_image_path)
  have "filter ?P (concat (map explode (concat (map (rows_of_image shapely gdf) ?images))))
          = concat (map explode (filter ?P (concat (map (rows_of_image shapely gdf) ?images))))"
    by (rule filter_concat_map_other) (simp add: explode_path)
  also have "\<dots> = concat (map explode (rows_of_image shapely gdf f))"
    unfolding rows images by simp
  finally show ?thesis
    by (simp add: map_geometry_to_geotiffs_def Let_def filter_drop_duplicates)
qed

lemma drop_duplicates_single: "drop_duplicates [x] = [x]"
  by (simp add: drop_duplicates_def)

lemma map_geometry_all_empty:
  assumes "\<forall>f \<in> set tifs. \<forall>r \<in> set gdf. \<forall>g. geometry r = Some g \<longrightarrow> \<not> intersects shapely g (footprint f)"
    and "r \<in> set (map_geometry_to_geotiffs shapely gdf tifs)"
  shows "m_geometry r = Polygon []"
proof -
  from assms(2) obtain f r0 where f: "f \<in> set tifs" and r0: "r0 \<in> set (rows_of_image shapely gdf f)"
    and r: "r \<in> set (explode r0)"
    by (auto simp: map_geometry_to_geotiffs_def Let_def set_drop_duplicates)
  from f assms(1) have "rows_of_image shapely gdf f =
           [\<lparr>m_filename = tif_name f, m_path = tif_path f, m_width = src_width (opened f),
             m_height = src_height (opened f), m_geometry = Polygon []\<rparr>]"
    by (intro rows_of_image_disjoint) blast
  with r0 have "m_geometry r0 = Polygon []" by simp
  with r show ?thesis by (simp add: explode_empty_polygon)
qed

lemma m_geometry_insert_years: "m_geometry (insert_years sy ey r) = m_geometry r"
  by (simp add: insert_years_def)

lemma sort_key_Nil_iff: "sort_key k xs = [] \<longleftrightarrow> xs = []"
  using length_sort [of k xs] by (cases xs) auto

lemma images_found:
  assumes "gdf \<noteq> []"
    and "\<forall>y0 y1. years = Some (y0, y1)
           \<longrightarrow> (\<exists>r \<in> set gdf. start_year r = y0 \<and> end_year r = y1)"
  shows "\<exists>imgs. preprocess_geotiff_dataset gdf years = Inr imgs"
proof (cases years)
  case None
  with assms(1) show ?thesis
    by (simp add: preprocess_geotiff_dataset_def drop_duplicates_Nil_iff)
next
  case (Some y)
  obtain y0 y1 where y: "y = (y0, y1)" by (cases y)
  with Some assms(2) have "filter (\<lambda>r. start_year r = y0 \<and> end_year r = y1) gdf \<noteq> []"
    by (auto simp: filter_empty_conv)
  with Some y show ?thesis
    by (simp add: preprocess_geotiff_dataset_def drop_duplicates_Nil_iff)
qed

text \<open>
  C7. A chip file that is selected for the group and whose footprint no annotation of
  the group intersects gets exactly one row, with the empty polygon as geometry. With
  \<^verbatim>\<open>ignore_empty_geom=True\<close> no row of the returned frame has an empty geometry, and
  when no annotation intersects any chip footprint the call returns, with a frame that
  has no rows (for a frame with rows, and with rows of the year pair asked for, if one
  is).
\<close>

theorem empty_geometry_rows:
  fixes gdf :: "gdf_row list"
  shows
  "(distinct (map tif_path tifs) \<and> f \<in> set tifs
      \<and> compare_stem (tif_stem f) (map splitext_root (drop_duplicates (map filename gdf)))
      \<and> (\<forall>r \<in> set gdf. \<forall>g. geometry r = Some g \<longrightarrow> \<not> intersects shapely g (footprint f))
    \<longrightarrow> filter (\<lambda>r. m_path r = tif_path f) (map_geometry_to_geotiffs shapely gdf tifs)
          = [\<lparr>m_filename = tif_name f, m_path = tif_path f, m_width = src_width (opened f),
              m_height = src_height (opened f), m_geometry = Polygon []\<rparr>])
   \<and> (preprocess_ndvi_difference_geotiffs shapely gdf years tifs True = Inr (rows, unused)
        \<longrightarrow> (\<forall>r \<in> set rows. \<not> is_empty (m_geometry r)))
   \<and> (gdf \<noteq> []
        \<and> (\<forall>y0 y1. years = Some (y0, y1)
              \<longrightarrow> (\<exists>r \<in> set gdf. start_year r = y0 \<and> end_year r = y1))
        \<and> (\<forall>f \<in> set tifs. \<forall>r \<in> set gdf. \<forall>g.
              geometry r = Some g \<longrightarrow> \<not> intersects shapely g (footprint f))
        \<longrightarrow> (\<exists>unused. preprocess_ndvi_difference_geotiffs shapely gdf years tifs True
                        = Inr ([], unused)))"
proof (intro conjI impI)
  assume a: "distinct (map tif_path tifs) \<and> f \<in> set tifs
      \<and> compare_stem (tif_stem f) (map splitext_root (drop_duplicates (map filename gdf)))
      \<and> (\<forall>r \<in> set gdf. \<forall>g. geometry r = Some g \<longrightarrow> \<not> intersects shapely g (footprint f))"
  then have "filter (\<lambda>r. m_path r = tif_path f) (map_geometry_to_geotiffs shapely gdf tifs)
           = drop_duplicates (concat (map explode (rows_of_image shapely gdf f)))"
    by (intro map_geometry_rows_of) simp_all
  moreover from a have "rows_of_image shapely gdf f =
           [\<lparr>m_filename = tif_name f, m_path = tif_path f, m_width = src_width (opened f),
             m_height = src_height (opened f), m_geometry = Polygon []\<rparr>]"
    by (intro rows_of_image_disjoint) simp
  ultimately show "filter (\<lambda>r. m_path r = tif_path f) (map_geometry_to_geotiffs shapely gdf tifs)
          = [\<lparr>m_filename = tif_name f, m_path = tif_path f, m_width = src_width (opened f),
              m_height = src_height (opened f), m_geometry = Polygon []\<rparr>]"
    by (simp add: explode_empty_polygon drop_duplicates_single)
next
  assume "preprocess_ndvi_difference_geotiffs shapely gdf years tifs True = Inr (rows, unused)"
  then show "\<forall>r \<in> set rows. \<not> is_empty (m_geometry r)"
    by (auto simp: preprocess_ndvi_difference_geotiffs_def Let_def set_drop_duplicates
        split: if_splits sum.splits)
next
  assume a: "gdf \<noteq> []
        \<and> (\<forall>y0 y1. years = Some (y0, y1)
              \<longrightarrow> (\<exists>r \<in> set gdf. start_year r = y0 \<and> end_year r = y1))
        \<and> (\<forall>f \<in> set tifs. \<forall>r \<in> set gdf. \<forall>g.
              geometry r = Some g \<longrightarrow> \<not> intersects shapely g (footprint f))"
  then obtain imgs where imgs: "preprocess_geotiff_dataset gdf years = Inr imgs"
    using images_found [of gdf years] by blast
  let ?pairs = "sort (drop_duplicates (map (\<lambda>r. (start_year r, end_year r)) gdf))"
  let ?group = "\<lambda>(sy, ey).
                   map (insert_years sy ey)
                     (map_geometry_to_geotiffs shapely
                        (filter (\<lambda>r. start_year r = sy \<and> end_year r = ey) gdf) tifs)"
  from a have "drop_duplicates (map (\<lambda>r. (start_year r, end_year r)) gdf) \<noteq> []"
    by (simp add: drop_duplicates_Nil_iff)
  then have pairs: "map ?group ?pairs \<noteq> []"
    by (simp add: sort_key_Nil_iff)
  have "is_empty (m_geometry r)" if "r \<in> set (concat (map ?group ?pairs))" for r
  proof -
    from that obtain sy ey r0 where
      "r0 \<in> set (map_geometry_to_geotiffs shapely
                   (filter (\<lambda>r. start_year r = sy \<and> end_year r = ey) gdf) tifs)"
      and r: "r = insert_years sy ey r0"
      by auto
    with a have "m_geometry r0 = Polygon []"
      by (intro map_geometry_all_empty [where tifs = tifs and shapely = shapely
            and gdf = "filter (\<lambda>r. start_year r = sy \<and> end_year r = ey) gdf"]) auto
    with r show ?thesis
      by (simp add: m_geometry_insert_years)
  qed
  then have "filter (\<lambda>r. \<not> is_empty (m_geometry r)) (concat (map ?group ?pairs)) = []"
    by (simp only: filter_empty_conv) blast
  with pairs imgs
  show "\<exists>unused. preprocess_ndvi_difference_geotiffs shapely gdf years tifs True = Inr ([], unused)"
    by (simp add: preprocess_ndvi_difference_geotiffs_def Let_def drop_duplicates_def)
qed

lemma splitext_r: "splitext_root ''r.tif'' = ''r''"
  by (simp add: splitext_root_def Let_def)

theorem empty_geometry_rows_witness:
  "map_geometry_to_geotiffs plain_shapely far_annotation chip_tifs
     = [\<lparr>m_filename = ''r_chip_0_0.tif'', m_path = ''out/r_chip_0_0.tif'', m_width = 2,
         m_height = 2, m_geometry = Polygon []\<rparr>]
   \<and> preprocess_ndvi_difference_geotiffs plain_shapely far_annotation (Some (2015, 2019))
         chip_tifs True
       = Inr ([], [''out/r_chip_0_0.tif''])"
  using empty_geometry_rows [where tifs = chip_tifs and f = "hd chip_tifs"
      and gdf = far_annotation and shapely = plain_shapely and years = "Some (2015, 2019)"
      and rows = "[]" and unused = "[''out/r_chip_0_0.tif'']"]
  by (simp add: preprocess_ndvi_difference_geotiffs_def preprocess_geotiff_dataset_def
        map_geometry_to_geotiffs_def
        rows_of_image_def explode_def drop_duplicates_def Let_def chip_tifs_def
        far_annotation_def plain_shapely_def tif_def square_raster_def splitext_r
        insert_years_def)

end
